theory Spec2Isabelle
  imports Complex_Main
begin

section \<open>Python values shared by the modules\<close>

text \<open>
  Exceptions of the embedded code are values: every function that can raise returns
  a sum whose left injection carries the exception.
\<close>

datatype py_error =
    AssertionError string
  | RuntimeError string
  | ValueError string
  | IndexError
  | TypeError
  | PermissionError
  | SerialException
  | FileCurrentlyPrinted
  | DestinationSameAsSource
  | FileNotFound

text \<open>
  Python strings are modelled as byte strings. \<open>\d\<close> of the regular expressions and
  the digits of \<open>int()\<close> are the ASCII digits.
\<close>

definition is_digit :: "char \<Rightarrow> bool" where
  "is_digit c = (c \<in> set ''0123456789'')"

definition digit_value :: "char \<Rightarrow> nat" where
  "digit_value c = of_char c - 48"

fun digits_value :: "nat \<Rightarrow> string \<Rightarrow> nat" where
  "digits_value acc [] = acc"
| "digits_value acc (c # cs) = digits_value (10 * acc + digit_value c) cs"

definition is_space :: "char \<Rightarrow> bool" where
  "is_space c = (c \<in> set [CHR '' '', CHR 0x09, CHR 0x0A, CHR 0x0B, CHR 0x0C, CHR 0x0D,
                            CHR 0x1C, CHR 0x1D, CHR 0x1E, CHR 0x1F])"

definition strip :: "string \<Rightarrow> string" where
  "strip s = rev (dropWhile is_space (rev (dropWhile is_space s)))"

text \<open>
  The digit part of an integer literal accepted by \<open>int()\<close>: decimal digits, with
  single underscores allowed between two digits. The result drops the underscores.
\<close>

fun py_digits :: "string \<Rightarrow> string option" where
  "py_digits [] = None"
| "py_digits [c] = (if is_digit c then Some [c] else None)"
| "py_digits (c # d # cs) =
     (if \<not> is_digit c then None
      else if d = CHR ''_'' then map_option ((#) c) (py_digits cs)
      else map_option ((#) c) (py_digits (d # cs)))"

text \<open>
  \<open>int(s)\<close> on a string: surrounding whitespace is stripped, an optional sign is
  read, the rest must be a digit part. \<open>None\<close> stands for the \<open>ValueError\<close> that
  \<open>int()\<close> raises.
\<close>

definition py_int :: "string \<Rightarrow> int option" where
  "py_int s =
     (let t = strip s;
          neg = (case t of c # _ \<Rightarrow> c = CHR ''-'' | [] \<Rightarrow> False);
          body = (case t of c # r \<Rightarrow> (if c = CHR ''-'' \<or> c = CHR ''+'' then r else t) | [] \<Rightarrow> t)
      in case py_digits body of
           None \<Rightarrow> None
         | Some ds \<Rightarrow> Some (if neg then - int (digits_value 0 ds) else int (digits_value 0 ds)))"

section \<open>Telemetry gatherer (old_buddy/modules/telemetry_gatherer.py)\<close>

subsection \<open>Data\<close>

text \<open>
  Modelled from the spec: the enumeration \<open>States\<close> of \<open>old_buddy.modules.connect_api\<close>
  is not part of the sources. The spec names the base states READY, BUSY, ERROR and
  ATTENTION and the printing states PRINTING, PAUSED and FINISHING.
\<close>

datatype States = READY | BUSY | ERROR | ATTENTION | PRINTING | PAUSED | FINISHING

fun state_name :: "States \<Rightarrow> string" where
  "state_name READY = ''READY''"
| "state_name BUSY = ''BUSY''"
| "state_name ERROR = ''ERROR''"
| "state_name ATTENTION = ''ATTENTION''"
| "state_name PRINTING = ''PRINTING''"
| "state_name PAUSED = ''PAUSED''"
| "state_name FINISHING = ''FINISHING''"

text \<open>
  Modelled from the spec: the class \<open>Telemetry\<close> of \<open>old_buddy.modules.connect_api\<close> is
  not part of the sources. The spec describes it as a bag of optional typed fields;
  the fields are the ones the gatherer assigns. Floating point values stay abstract
  (the type parameter \<open>'f\<close>): the gatherer only parses and stores them.
\<close>

record 'f Telemetry =
  temp_nozzle :: "'f option"
  target_nozzle :: "'f option"
  temp_bed :: "'f option"
  target_bed :: "'f option"
  axis_x :: "'f option"
  axis_y :: "'f option"
  axis_z :: "'f option"
  e_fan :: "'f option"
  p_fan :: "'f option"
  printing_time :: "int option"
  progress :: "int option"
  estimated_time :: "int option"
  flow :: "int option"
  speed :: "int option"
  state :: "string option"

text \<open>Modelled from the spec: \<open>Telemetry()\<close>, a snapshot with every field unset.\<close>

definition Telemetry_new :: "'f Telemetry" where
  "Telemetry_new =
     \<lparr> temp_nozzle = None, target_nozzle = None, temp_bed = None, target_bed = None,
       axis_x = None, axis_y = None, axis_z = None, e_fan = None, p_fan = None,
       printing_time = None, progress = None, estimated_time = None,
       flow = None, speed = None, state = None \<rparr>"

text \<open>
  Snapshots are objects: \<open>current_telemetry\<close> and \<open>last_telemetry\<close> are references into
  a store, since \<open>__init__\<close> and \<open>update_telemetry\<close> make both attributes name one
  object and the handlers mutate the object behind \<open>current_telemetry\<close> in place.
  \<open>next_ref\<close> is the first address never handed out.
\<close>

type_synonym ref = nat

record 'f TelemetryGatherer =
  store :: "ref \<Rightarrow> 'f Telemetry"
  next_ref :: ref
  current_telemetry :: ref
  last_telemetry :: ref
  running :: bool

text \<open>
  What one call leaves behind outside the gatherer: the snapshot handed to
  \<open>send_telemetry_signal\<close> (the reference and the object's fields at that moment),
  every call of \<open>serial.write\<close> with its outcome, and every log record.
\<close>

datatype write_outcome = Written | WriteIgnored | WriteFailed

datatype log_level = DEBUG | INFO | WARNING | LOG_ERROR

datatype 'f event =
    Published ref "'f Telemetry"
  | Wrote string write_outcome
  | Logged log_level string

definition TELEMETRY_GCODES :: "string list" where
  "TELEMETRY_GCODES = [''M105'', ''M114'', ''PRUSA FAN'', ''M27'', ''M73'']"

definition writes_of :: "'f event list \<Rightarrow> string list" where
  "writes_of evs = concat (map (\<lambda>e. case e of Wrote c _ \<Rightarrow> [c] | _ \<Rightarrow> []) evs)"

definition published_of :: "'f event list \<Rightarrow> (ref \<times> 'f Telemetry) list" where
  "published_of evs = concat (map (\<lambda>e. case e of Published r t \<Rightarrow> [(r, t)] | _ \<Rightarrow> []) evs)"

definition log_levels_of :: "'f event list \<Rightarrow> log_level list" where
  "log_levels_of evs = concat (map (\<lambda>e. case e of Logged l _ \<Rightarrow> [l] | _ \<Rightarrow> []) evs)"

subsection \<open>Operations\<close>

text \<open>Allocation of a fresh \<open>Telemetry()\<close> object.\<close>

definition alloc_telemetry :: "'f TelemetryGatherer \<Rightarrow> ref \<times> 'f TelemetryGatherer" where
  "alloc_telemetry g =
     (next_ref g, g\<lparr> store := (store g)(next_ref g := Telemetry_new), next_ref := Suc (next_ref g) \<rparr>)"

text \<open>An assignment \<open>self.current_telemetry.field = v\<close>: the object is changed in place.\<close>

definition modify_current ::
  "('f Telemetry \<Rightarrow> 'f Telemetry) \<Rightarrow> 'f TelemetryGatherer \<Rightarrow> 'f TelemetryGatherer" where
  "modify_current f g =
     g\<lparr> store := (store g)(current_telemetry g := f (store g (current_telemetry g))) \<rparr>"

text \<open>
  The part of \<open>__init__\<close> that sets up the snapshots (the instance guard is modelled
  with the other guarded classes below).
\<close>

definition init_snapshots :: "'f TelemetryGatherer" where
  "init_snapshots =
     \<lparr> store = (\<lambda>_. Telemetry_new), next_ref = 1, current_telemetry = 0,
       last_telemetry = 0, running = True \<rparr>"

text \<open>
  \<open>send_telemetry\<close>. \<open>PRINTING_STATES\<close> is imported from the state manager, which is
  not part of the sources, and is a parameter; \<open>st\<close> is what \<open>get_state()\<close> returned.
\<close>

definition send_telemetry ::
  "States list \<Rightarrow> States \<Rightarrow> 'f TelemetryGatherer \<Rightarrow> 'f TelemetryGatherer \<times> 'f event list" where
  "send_telemetry PRINTING_STATES st g =
     (let g1 = modify_current (\<lambda>t. t\<lparr> state := Some (state_name st) \<rparr>) g;
          g2 = (if st \<notin> set PRINTING_STATES
                then modify_current
                       (\<lambda>t. t\<lparr> printing_time := None, estimated_time := None, progress := None \<rparr>) g1
                else g1);
          g3 = (if st = PRINTING
                then modify_current (\<lambda>t. t\<lparr> axis_x := None, axis_y := None \<rparr>) g2
                else g2)
      in (g3, [Published (current_telemetry g3) (store g3 (current_telemetry g3))]))"

text \<open>
  \<open>ping_printer\<close>: \<open>WriteIgnored\<close> is swallowed, any other exception of
  \<open>serial.write\<close> leaves the method.
\<close>

definition ping_printer :: "write_outcome \<Rightarrow> 'f event list \<times> py_error option" where
  "ping_printer outcome =
     ([Wrote ''PRUSA PING'' outcome],
      (case outcome of WriteFailed \<Rightarrow> Some SerialException | _ \<Rightarrow> None))"

text \<open>
  The loop over \<open>TELEMETRY_GCODES\<close>. \<open>base_state\<close> is read again before every write
  and can change between reads: \<open>bs r\<close> is the value of the \<open>r\<close>-th read of the cycle,
  \<open>wr w\<close> the outcome of the cycle's \<open>w\<close>-th call of \<open>serial.write\<close>.
\<close>

fun write_gcodes ::
  "(nat \<Rightarrow> States) \<Rightarrow> (nat \<Rightarrow> write_outcome) \<Rightarrow> nat \<Rightarrow> nat \<Rightarrow> string list
     \<Rightarrow> 'f event list \<times> py_error option" where
  "write_gcodes bs wr r w [] = ([], None)"
| "write_gcodes bs wr r w (gcode # rest) =
     (if bs r = BUSY then ([], None)
      else case wr w of
             Written \<Rightarrow>
               (let (evs, res) = write_gcodes bs wr (Suc r) (Suc w) rest
                in (Wrote gcode Written # evs, res))
           | WriteIgnored \<Rightarrow>
               (let (evs, res) = write_gcodes bs wr (Suc r) (Suc w) rest
                in (Wrote gcode WriteIgnored
                    # Logged DEBUG ''Telemetry request got ignored, serial is exclusive for something else''
                    # evs, res))
           | WriteFailed \<Rightarrow> ([Wrote gcode WriteFailed], Some SerialException))"

definition update_telemetry ::
  "States list \<Rightarrow> States \<Rightarrow> (nat \<Rightarrow> States) \<Rightarrow> (nat \<Rightarrow> write_outcome) \<Rightarrow> 'f TelemetryGatherer
     \<Rightarrow> 'f TelemetryGatherer \<times> 'f event list \<times> py_error option" where
  "update_telemetry PRINTING_STATES st bs wr g =
     (let (g1, sent) = send_telemetry PRINTING_STATES st g;
          g2 = g1\<lparr> last_telemetry := current_telemetry g1 \<rparr>;
          (fresh, g3) = alloc_telemetry g2;
          g4 = g3\<lparr> current_telemetry := fresh \<rparr>
      in if bs 0 = BUSY
         then (let (pinged, res) = ping_printer (wr 0);
                   busy = Logged DEBUG ''Printer seems busy, not asking for telemetry''
               in case res of
                    Some e \<Rightarrow> (g4, sent @ busy # pinged, Some e)
                  | None \<Rightarrow>
                      (let (evs, res') = write_gcodes bs wr 1 1 TELEMETRY_GCODES
                       in (g4, sent @ busy # pinged @ evs, res')))
         else (let (evs, res') = write_gcodes bs wr 1 0 TELEMETRY_GCODES
               in (g4, sent @ evs, res')))"

text \<open>
  The handlers get the groups of the match. \<open>position_handler\<close> reads the groups 4, 5
  and 6 and assigns the three axis fields one after the other, so a failing conversion
  leaves the earlier assignments in place; \<open>to_float\<close> stands for \<open>float()\<close>.
\<close>

definition position_handler ::
  "(string \<Rightarrow> 'f option) \<Rightarrow> string list \<Rightarrow> 'f TelemetryGatherer
     \<Rightarrow> 'f TelemetryGatherer \<times> py_error option" where
  "position_handler to_float groups g =
     (if length groups \<le> 4 then (g, Some IndexError)
      else case to_float (groups ! 4) of
        None \<Rightarrow> (g, Some (ValueError ''could not convert string to float''))
      | Some x \<Rightarrow>
         (let g1 = modify_current (\<lambda>t. t\<lparr> axis_x := Some x \<rparr>) g
          in if length groups \<le> 5 then (g1, Some IndexError)
             else case to_float (groups ! 5) of
               None \<Rightarrow> (g1, Some (ValueError ''could not convert string to float''))
             | Some y \<Rightarrow>
                (let g2 = modify_current (\<lambda>t. t\<lparr> axis_y := Some y \<rparr>) g1
                 in if length groups \<le> 6 then (g2, Some IndexError)
                    else case to_float (groups ! 6) of
                      None \<Rightarrow> (g2, Some (ValueError ''could not convert string to float''))
                    | Some z \<Rightarrow>
                       (modify_current (\<lambda>t. t\<lparr> axis_z := Some z \<rparr>) g2, None))))"

definition progress_handler ::
  "string list \<Rightarrow> 'f TelemetryGatherer \<Rightarrow> py_error + 'f TelemetryGatherer" where
  "progress_handler groups g =
     (case groups of
        [] \<Rightarrow> Inl IndexError
      | s # _ \<Rightarrow>
          (case py_int s of
             None \<Rightarrow> Inl (ValueError ''invalid literal for int()'')
           | Some p \<Rightarrow>
               if 0 \<le> p \<and> p \<le> 100
               then Inr (modify_current (\<lambda>t. t\<lparr> progress := Some p \<rparr>) g)
               else Inr g))"

text \<open>
  A gatherer in the middle of a cycle, used to evaluate the operations: the current
  snapshot has temperatures, a position and the figures of a print job.
\<close>

definition example_snapshot :: "real Telemetry" where
  "example_snapshot =
     Telemetry_new\<lparr> temp_nozzle := Some 215, axis_x := Some 10, axis_y := Some 20,
       axis_z := Some (1/5), printing_time := Some 600, progress := Some 40,
       estimated_time := Some 1200 \<rparr>"

definition example_gatherer :: "real TelemetryGatherer" where
  "example_gatherer = modify_current (\<lambda>_. example_snapshot) init_snapshots"

section \<open>Startup probes (prusa/link/printer_adapter/informers/getters.py)\<close>

subsection \<open>Instructions and the serial queue\<close>

text \<open>
  A compiled regular expression is the function it computes on a line: the captured
  groups of a match, or \<open>None\<close>.
\<close>

type_synonym regex = "string \<Rightarrow> string list option"

text \<open>
  Modelled from the spec: the classes \<open>Instruction\<close> and \<open>SerialQueue\<close> and the helpers
  \<open>enqueue_matchable\<close>, \<open>enqueue_instruction\<close> and \<open>wait_for_instruction\<close> are not part
  of the sources. An Instruction has the line to transmit, an optional matcher and a
  priority (normal or front of the queue).
\<close>

record Instruction =
  message :: string
  regexp :: "regex option"
  to_front :: bool

text \<open>
  Modelled from the spec: the serial queue state is two ordered collections of
  pending Instructions (front priority, normal priority) and a write-exclusivity
  flag. \<open>enqueue\<close> rejects with "write ignored" while exclusivity is held elsewhere
  and otherwise appends to the tier of the Instruction; Instructions are sent front
  tier first, each tier in insertion order.
\<close>

record SerialQueue =
  front_queue :: "Instruction list"
  normal_queue :: "Instruction list"
  write_exclusive :: bool

datatype queue_error = QueueWriteIgnored

definition enqueue :: "Instruction \<Rightarrow> SerialQueue \<Rightarrow> queue_error + SerialQueue" where
  "enqueue i q =
     (if write_exclusive q then Inl QueueWriteIgnored
      else if to_front i then Inr (q\<lparr> front_queue := front_queue q @ [i] \<rparr>)
      else Inr (q\<lparr> normal_queue := normal_queue q @ [i] \<rparr>))"

definition send_order :: "SerialQueue \<Rightarrow> Instruction list" where
  "send_order q = front_queue q @ normal_queue q"

text \<open>
  Modelled from the spec: while an Instruction is the current one, every line read is
  fed to it, and the first line its matcher accepts is recorded as the match.
  \<open>lines\<close> are the lines read until \<open>wait_for_instruction\<close> returned; the result is what
  \<open>instruction.match()\<close> gives afterwards.
\<close>

fun first_match :: "regex \<Rightarrow> string list \<Rightarrow> string list option" where
  "first_match rx [] = None"
| "first_match rx (l # ls) = (case rx l of Some groups \<Rightarrow> Some groups | None \<Rightarrow> first_match rx ls)"

definition wait_for_instruction :: "Instruction \<Rightarrow> string list \<Rightarrow> string list option" where
  "wait_for_instruction instruction lines =
     (case regexp instruction of None \<Rightarrow> None | Some rx \<Rightarrow> first_match rx lines)"

text \<open>
  Modelled from the spec: \<open>FW_REGEX\<close> of \<open>structures.regular_expressions\<close> is not part of
  the sources; the spec's firmware-version matcher is the pattern \<open>FW:(\d+\.\d+)\<close>,
  applied at the start of the line.
\<close>

definition FW_REGEX :: regex where
  "FW_REGEX line =
     (if take 3 line \<noteq> ''FW:'' then None
      else let r = drop 3 line;
               a = takeWhile is_digit r;
               r1 = dropWhile is_digit r
           in case r1 of
                [] \<Rightarrow> None
              | c # r2 \<Rightarrow>
                  (let b = takeWhile is_digit r2
                   in if a \<noteq> [] \<and> c = CHR ''.'' \<and> b \<noteq> [] then Some [a @ c # b] else None))"

subsection \<open>distutils.version.StrictVersion\<close>

text \<open>
  The version pattern of \<open>StrictVersion\<close> is \<open>^(\d+)\.(\d+)(\.(\d+))?([ab](\d+))?$\<close>; a
  string it does not match raises \<open>ValueError\<close> (here \<open>None\<close>). A missing patch number is
  0. \<open>$\<close> also matches before one final newline.
\<close>

record strict_version =
  major :: nat
  minor :: nat
  patch :: nat
  prerelease :: "(char \<times> nat) option"

definition at_end :: "string \<Rightarrow> bool" where
  "at_end r = (r = [] \<or> r = [CHR 0x0A])"

definition parse_prerelease :: "string \<Rightarrow> (char \<times> nat) option option" where
  "parse_prerelease r =
     (if at_end r then Some None
      else case r of
             [] \<Rightarrow> None
           | c # r1 \<Rightarrow>
               (let n = takeWhile is_digit r1
                in if (c = CHR ''a'' \<or> c = CHR ''b'') \<and> n \<noteq> [] \<and> at_end (dropWhile is_digit r1)
                   then Some (Some (c, digits_value 0 n))
                   else None))"

definition StrictVersion :: "string \<Rightarrow> strict_version option" where
  "StrictVersion s =
     (let a = takeWhile is_digit s; r1 = dropWhile is_digit s
      in case r1 of
           [] \<Rightarrow> None
         | c # r2 \<Rightarrow>
             (let b = takeWhile is_digit r2; r3 = dropWhile is_digit r2
              in if a = [] \<or> c \<noteq> CHR ''.'' \<or> b = [] then None
                 else case r3 of
                        [] \<Rightarrow> Some \<lparr> major = digits_value 0 a, minor = digits_value 0 b,
                                    patch = 0, prerelease = None \<rparr>
                      | d # r4 \<Rightarrow>
                          (if d = CHR ''.'' \<and> takeWhile is_digit r4 \<noteq> []
                           then map_option
                                  (\<lambda>pre. \<lparr> major = digits_value 0 a, minor = digits_value 0 b,
                                           patch = digits_value 0 (takeWhile is_digit r4),
                                           prerelease = pre \<rparr>)
                                  (parse_prerelease (dropWhile is_digit r4))
                           else map_option
                                  (\<lambda>pre. \<lparr> major = digits_value 0 a, minor = digits_value 0 b,
                                           patch = 0, prerelease = pre \<rparr>)
                                  (parse_prerelease r3))))"

text \<open>
  \<open>v >= w\<close> on strict versions: the number triples are compared first; with equal
  numbers a version without prerelease tag is the later one, and two tags compare as
  pairs.
\<close>

definition version_ge :: "strict_version \<Rightarrow> strict_version \<Rightarrow> bool" where
  "version_ge v w =
     (if (major v, minor v, patch v) \<noteq> (major w, minor w, patch w)
      then major v > major w
           \<or> (major v = major w \<and> (minor v > minor w \<or> (minor v = minor w \<and> patch v > patch w)))
      else case (prerelease v, prerelease w) of
             (None, _) \<Rightarrow> True
           | (Some _, None) \<Rightarrow> False
           | (Some (c, n), Some (d, m)) \<Rightarrow>
               (of_char c :: nat) > of_char d \<or> (c = d \<and> n \<ge> m))"

subsection \<open>The getters\<close>

datatype PrinterType = I3MK3 | I3MK3S

definition PRINTER_TYPES :: "int \<Rightarrow> PrinterType option" where
  "PRINTER_TYPES = map_of [(300, I3MK3), (20300, I3MK3), (302, I3MK3S), (20302, I3MK3S)]"

text \<open>The \<open>ok\<close> attributes of the error states \<open>errors.ID\<close> and \<open>errors.FW\<close>.\<close>

record ErrorStates =
  ID_ok :: "bool option"
  FW_ok :: "bool option"

text \<open>
  Modelled from the spec: the helpers \<open>enqueue_matchable\<close> and \<open>enqueue_instruction\<close>
  of \<open>input_output.serial.helpers\<close> are not part of the sources. They create the
  Instruction for a line, with or without a matcher, and submit it with the given
  priority; the model gives the Instruction that is submitted.
\<close>

definition enqueue_matchable :: "string \<Rightarrow> regex \<Rightarrow> bool \<Rightarrow> Instruction" where
  "enqueue_matchable msg rx front = \<lparr> message = msg, regexp = Some rx, to_front = front \<rparr>"

definition enqueue_instruction :: "string \<Rightarrow> bool \<Rightarrow> Instruction" where
  "enqueue_instruction msg front = \<lparr> message = msg, regexp = None, to_front = front \<rparr>"

text \<open>
  Each getter returns its result, the Instructions it submitted (in order) and the
  error states. \<open>PRINTER_TYPE_REGEX\<close>, \<open>NOZZLE_REGEX\<close> and the minimal firmware version
  are constants of modules that are not part of the sources, hence parameters;
  \<open>lines\<close> are the lines read while the getter waited.
\<close>

definition get_printer_type ::
  "regex \<Rightarrow> string list \<Rightarrow> ErrorStates \<Rightarrow> (py_error + PrinterType) \<times> Instruction list \<times> ErrorStates" where
  "get_printer_type PRINTER_TYPE_REGEX lines errs =
     (let instruction = enqueue_matchable ''M862.2 Q'' PRINTER_TYPE_REGEX True
      in case wait_for_instruction instruction lines of
           None \<Rightarrow>
             (Inl (RuntimeError ''Printer responded with something unexpected''),
              [instruction], errs\<lparr> ID_ok := Some False \<rparr>)
         | Some groups \<Rightarrow>
             (case groups of
                [] \<Rightarrow> (Inl IndexError, [instruction], errs)
              | s # _ \<Rightarrow>
                  (case py_int s of
                     None \<Rightarrow> (Inl (ValueError ''invalid literal for int()''), [instruction], errs)
                   | Some code \<Rightarrow>
                       (case PRINTER_TYPES code of
                          Some t \<Rightarrow> (Inr t, [instruction], errs\<lparr> ID_ok := Some True \<rparr>)
                        | None \<Rightarrow>
                            (Inl (RuntimeError ''Unsupported printer model''),
                             [instruction, enqueue_instruction ''M117 Unsupported printer'' True],
                             errs\<lparr> ID_ok := Some False \<rparr>)))))"

definition get_firmware_version ::
  "strict_version \<Rightarrow> string list \<Rightarrow> ErrorStates \<Rightarrow> (py_error + string) \<times> Instruction list \<times> ErrorStates" where
  "get_firmware_version MINIMAL_FIRMWARE lines errs =
     (let instruction = enqueue_matchable ''M115'' FW_REGEX True
      in case wait_for_instruction instruction lines of
           None \<Rightarrow>
             (Inl (RuntimeError ''Printer responded with something unexpected''),
              [instruction], errs)
         | Some groups \<Rightarrow>
             (case groups of
                [] \<Rightarrow> (Inl IndexError, [instruction], errs)
              | firmware_version # _ \<Rightarrow>
                  (case StrictVersion firmware_version of
                     None \<Rightarrow> (Inl (ValueError ''invalid version number''), [instruction], errs)
                   | Some v \<Rightarrow>
                       (Inr firmware_version, [instruction],
                        errs\<lparr> FW_ok := Some (version_ge v MINIMAL_FIRMWARE) \<rparr>))))"

definition get_nozzle_diameter ::
  "regex \<Rightarrow> (string \<Rightarrow> 'f option) \<Rightarrow> string list \<Rightarrow> ErrorStates
     \<Rightarrow> (py_error + 'f) \<times> Instruction list \<times> ErrorStates" where
  "get_nozzle_diameter NOZZLE_REGEX to_float lines errs =
     (let instruction = enqueue_matchable ''M862.1 Q'' NOZZLE_REGEX True
      in case wait_for_instruction instruction lines of
           None \<Rightarrow>
             (Inl (RuntimeError ''Printer responded with something unexpected''),
              [instruction], errs)
         | Some groups \<Rightarrow>
             (case groups of
                [] \<Rightarrow> (Inl IndexError, [instruction], errs)
              | s # _ \<Rightarrow>
                  (case to_float s of
                     None \<Rightarrow> (Inl (ValueError ''could not convert string to float''),
                              [instruction], errs)
                   | Some d \<Rightarrow> (Inr d, [instruction], errs))))"

text \<open>A queue with one urgent and two normal Instructions pending.\<close>

definition example_queue :: SerialQueue where
  "example_queue =
     \<lparr> front_queue = [enqueue_instruction ''M117 hello'' True],
       normal_queue = [enqueue_instruction ''M105'' False, enqueue_instruction ''M114'' False],
       write_exclusive = False \<rparr>"

section \<open>Module data (prusa/link/printer_adapter/structures/module_data_classes.py)\<close>

text \<open>
  \<open>State\<close> of the Connect SDK is not part of the sources; the record uses the state
  names of the spec. A pydantic model takes its fields as keyword arguments: a field
  that is not given gets its declared default, and an \<open>Optional\<close> field without a
  declared default gets \<open>None\<close>. In the keyword record the outer \<open>None\<close> means that the
  keyword is absent.
\<close>

type_synonym State = States

record StateManagerData =
  base_state :: "State option"
  printing_state :: "State option"
  override_state :: "State option"
  last_state :: "State option"
  current_state :: "State option"
  state_history :: "State list option"
  error_count :: "int option"

record StateManagerData_kwargs =
  kw_base_state :: "State option option"
  kw_printing_state :: "State option option"
  kw_override_state :: "State option option"
  kw_last_state :: "State option option"
  kw_current_state :: "State option option"
  kw_state_history :: "State list option option"
  kw_error_count :: "int option option"

definition field_value :: "'a \<Rightarrow> 'a option \<Rightarrow> 'a" where
  "field_value dflt kw = (case kw of None \<Rightarrow> dflt | Some v \<Rightarrow> v)"

definition StateManagerData_init :: "StateManagerData_kwargs \<Rightarrow> StateManagerData" where
  "StateManagerData_init kw =
     \<lparr> base_state = field_value (Some READY) (kw_base_state kw),
       printing_state = field_value None (kw_printing_state kw),
       override_state = field_value None (kw_override_state kw),
       last_state = field_value None (kw_last_state kw),
       current_state = field_value None (kw_current_state kw),
       state_history = field_value None (kw_state_history kw),
       error_count = field_value None (kw_error_count kw) \<rparr>"

definition no_kwargs :: StateManagerData_kwargs where
  "no_kwargs =
     \<lparr> kw_base_state = None, kw_printing_state = None, kw_override_state = None,
       kw_last_state = None, kw_current_state = None, kw_state_history = None,
       kw_error_count = None \<rparr>"

section \<open>Instance guards (prusa/link/config/__init__.py, telemetry_gatherer.py)\<close>

text \<open>
  The three guarded classes each declare a class attribute \<open>instance = None\<close>. The
  interpreter state holds the three class attributes, the instance attribute
  \<open>instance\<close> of every object that has one, and the next free object address.
  Reading \<open>obj.instance\<close> looks in the object first and in its class second;
  assigning \<open>obj.instance\<close> writes to the object, assigning \<open>Class.instance\<close> writes to
  the class.
\<close>

record py_classes =
  Config_instance :: "ref option"
  Settings_instance :: "ref option"
  TelemetryGatherer_instance :: "ref option"
  instance_attr :: "ref \<Rightarrow> ref option"
  next_object :: ref

definition classes_loaded :: py_classes where
  "classes_loaded =
     \<lparr> Config_instance = None, Settings_instance = None, TelemetryGatherer_instance = None,
       instance_attr = (\<lambda>_. None), next_object = 0 \<rparr>"

definition new_object :: "py_classes \<Rightarrow> ref \<times> py_classes" where
  "new_object w = (next_object w, w\<lparr> next_object := Suc (next_object w) \<rparr>)"

definition self_instance :: "py_classes \<Rightarrow> ref \<Rightarrow> ref option" where
  "self_instance w self =
     (case instance_attr w self of Some v \<Rightarrow> Some v | None \<Rightarrow> TelemetryGatherer_instance w)"

text \<open>
  \<open>Config.__init__\<close> and \<open>Settings.__init__\<close>: the guard reads the class attribute, the
  body reads and checks the configuration (\<open>body\<close> is the exception it raised, if
  any), and the last statement assigns the class attribute.
\<close>

definition Config_init :: "py_error option \<Rightarrow> py_classes \<Rightarrow> (py_error + ref) \<times> py_classes" where
  "Config_init body w =
     (let (self, w1) = new_object w
      in if Config_instance w1 \<noteq> None then (Inl (RuntimeError ''Config is singleton''), w1)
         else case body of
                Some e \<Rightarrow> (Inl e, w1)
              | None \<Rightarrow> (Inr self, w1\<lparr> Config_instance := Some self \<rparr>))"

definition Settings_init :: "py_error option \<Rightarrow> py_classes \<Rightarrow> (py_error + ref) \<times> py_classes" where
  "Settings_init body w =
     (let (self, w1) = new_object w
      in if Settings_instance w1 \<noteq> None then (Inl (RuntimeError ''Config is singleton''), w1)
         else case body of
                Some e \<Rightarrow> (Inl e, w1)
              | None \<Rightarrow> (Inr self, w1\<lparr> Settings_instance := Some self \<rparr>))"

text \<open>
  \<open>TelemetryGatherer.__init__\<close>: the guard reads \<open>self.instance\<close> and the next statement
  assigns \<open>self.instance\<close>. The rest of the constructor is \<open>init_snapshots\<close> above.
\<close>

definition TelemetryGatherer_init :: "py_classes \<Rightarrow> (py_error + ref) \<times> py_classes" where
  "TelemetryGatherer_init w =
     (let (self, w1) = new_object w
      in if self_instance w1 self \<noteq> None
         then (Inl (AssertionError
                 ''If this is required, we need the signals moved from class to instance variables.''),
               w1)
         else (Inr self, w1\<lparr> instance_attr := (instance_attr w1)(self := Some self) \<rparr>))"

text \<open>
  The states the constructors can reach from the loaded classes: the class attribute
  of \<open>TelemetryGatherer\<close> is unset and no object that is still to be created has an
  instance attribute.
\<close>

definition fresh_objects :: "py_classes \<Rightarrow> bool" where
  "fresh_objects w = (TelemetryGatherer_instance w = None
                      \<and> (\<forall>r. next_object w \<le> r \<longrightarrow> instance_attr w r = None))"

section \<open>File move handler (prusa/link/web/files_legacy.py)\<close>

subsection \<open>os.path\<close>

definition startswith_sep :: "string \<Rightarrow> bool" where
  "startswith_sep b = (case b of [] \<Rightarrow> False | c # _ \<Rightarrow> c = CHR ''/'')"

definition endswith_sep :: "string \<Rightarrow> bool" where
  "endswith_sep a = (case rev a of [] \<Rightarrow> False | c # _ \<Rightarrow> c = CHR ''/'')"

text \<open>\<open>posixpath.join\<close> of two components.\<close>

definition join :: "string \<Rightarrow> string \<Rightarrow> string" where
  "join a b =
     (if startswith_sep b then b
      else if a = [] \<or> endswith_sep a then a @ b
      else a @ ''/'' @ b)"

text \<open>
  \<open>posixpath.dirname\<close>: everything up to the last slash, with the trailing slashes of
  that head removed unless the head consists of slashes only.
\<close>

definition dirname :: "string \<Rightarrow> string" where
  "dirname p =
     (let head = rev (dropWhile (\<lambda>c. c \<noteq> CHR ''/'') (rev p))
      in if head \<noteq> [] \<and> filter (\<lambda>c. c \<noteq> CHR ''/'') head \<noteq> []
         then rev (dropWhile (\<lambda>c. c = CHR ''/'') (rev head))
         else head)"

subsection \<open>The handler\<close>

text \<open>
  The members of \<open>JobState\<close> that the sources name; the handler only compares with
  \<open>IN_PROGRESS\<close>.
\<close>

datatype JobState = IDLE | IN_PROGRESS

record JobData =
  job_state :: JobState
  selected_file_path :: "string option"

text \<open>The JSON body of the request: \<open>req.json.get\<close> gives \<open>None\<close> for a missing key.\<close>

record modify_request =
  json_source :: "string option"
  json_destination :: "string option"

datatype Response = Response nat

definition HTTP_CREATED :: nat where
  "HTTP_CREATED = 201"

datatype fs_call = Makedirs string | Move string string

text \<open>
  The file system is the operating system's: \<open>exists\<close>, \<open>makedirs\<close> and \<open>move\<close> are
  parameters, the last two giving either the exception they raise or the file system
  they leave. \<open>os_path\<close> is the result of \<open>get_os_path\<close> for the local storage and
  \<open>get_os_path\<close> the same function on the selected file (both from \<open>lib.files\<close>, which
  is not part of the sources). The handler returns its response or exception, the
  file system it leaves and the file system calls it made. The decorators of the
  route run before the handler and are not part of it.
\<close>

definition api_modify ::
  "('fs \<Rightarrow> string \<Rightarrow> bool) \<Rightarrow> (string \<Rightarrow> 'fs \<Rightarrow> py_error + 'fs)
     \<Rightarrow> (string \<Rightarrow> string \<Rightarrow> 'fs \<Rightarrow> py_error + 'fs)
     \<Rightarrow> string \<Rightarrow> (string option \<Rightarrow> string option) \<Rightarrow> JobData \<Rightarrow> modify_request \<Rightarrow> 'fs
     \<Rightarrow> (py_error + Response) \<times> 'fs \<times> fs_call list" where
  "api_modify exists makedirs move os_path get_os_path job req fs =
     (case json_source req of
        None \<Rightarrow> (Inl TypeError, fs, [])
      | Some src \<Rightarrow>
     (case json_destination req of
        None \<Rightarrow> (Inl TypeError, fs, [])
      | Some dst \<Rightarrow>
     (let source = join os_path src;
          destination = join os_path dst;
          path = dirname destination
      in if job_state job = IN_PROGRESS \<and> Some source = get_os_path (selected_file_path job)
         then (Inl FileCurrentlyPrinted, fs, [])
         else if source = destination then (Inl DestinationSameAsSource, fs, [])
         else if \<not> exists fs source then (Inl FileNotFound, fs, [])
         else if \<not> exists fs path
         then (case makedirs path fs of
                 Inl e \<Rightarrow> (Inl e, fs, [Makedirs path])
               | Inr fs1 \<Rightarrow>
                   (case move source destination fs1 of
                      Inl e \<Rightarrow> (Inl e, fs1, [Makedirs path, Move source destination])
                    | Inr fs2 \<Rightarrow>
                        (Inr (Response HTTP_CREATED), fs2, [Makedirs path, Move source destination])))
         else (Inr (Response HTTP_CREATED), fs, []))))"

text \<open>
  A small file system to evaluate the handler on: the set of the paths that exist,
  with a \<open>makedirs\<close> and a \<open>move\<close> that always succeed.
\<close>

definition example_fs :: "string set" where
  "example_fs = {''/home/pi/gcodes'', ''/home/pi/gcodes/a.gcode'', ''/home/pi/gcodes/sub''}"

definition example_exists :: "string set \<Rightarrow> string \<Rightarrow> bool" where
  "example_exists fs p = (p \<in> fs)"

definition example_makedirs :: "string \<Rightarrow> string set \<Rightarrow> py_error + string set" where
  "example_makedirs p fs = Inr (insert p fs)"

definition example_move :: "string \<Rightarrow> string \<Rightarrow> string set \<Rightarrow> py_error + string set" where
  "example_move s d fs = Inr (insert d (fs - {s}))"

definition idle_job :: JobData where
  "idle_job = \<lparr> job_state = IDLE, selected_file_path = None \<rparr>"

section \<open>Properties of the telemetry gatherer\<close>

subsection \<open>Events of a call\<close>

lemma writes_of_simps:
  "writes_of [] = []"
  "writes_of (Wrote c outcome # evs) = c # writes_of evs"
  "writes_of (Logged l m # evs) = writes_of evs"
  "writes_of (Published r t # evs) = writes_of evs"
  "writes_of (xs @ ys) = writes_of xs @ writes_of ys"
  by (simp_all add: writes_of_def)

lemma published_of_simps:
  "published_of [] = []"
  "published_of (Wrote c outcome # evs) = published_of evs"
  "published_of (Logged l m # evs) = published_of evs"
  "published_of (Published r t # evs) = (r, t) # published_of evs"
  "published_of (xs @ ys) = published_of xs @ published_of ys"
  by (simp_all add: published_of_def)

lemma log_levels_of_simps:
  "log_levels_of [] = []"
  "log_levels_of (Wrote c outcome # evs) = log_levels_of evs"
  "log_levels_of (Logged l m # evs) = l # log_levels_of evs"
  "log_levels_of (Published r t # evs) = log_levels_of evs"
  "log_levels_of (xs @ ys) = log_levels_of xs @ log_levels_of ys"
  by (simp_all add: log_levels_of_def)

lemma send_telemetry_events:
  "snd (send_telemetry PS st g) =
     [Published (current_telemetry g) (store (fst (send_telemetry PS st g)) (current_telemetry g))]"
  by (simp add: send_telemetry_def modify_current_def Let_def)

lemma send_telemetry_refs:
  "current_telemetry (fst (send_telemetry PS st g)) = current_telemetry g"
  "last_telemetry (fst (send_telemetry PS st g)) = last_telemetry g"
  "next_ref (fst (send_telemetry PS st g)) = next_ref g"
  by (simp_all add: send_telemetry_def modify_current_def Let_def)

lemma send_telemetry_store_other:
  "r \<noteq> current_telemetry g \<Longrightarrow> store (fst (send_telemetry PS st g)) r = store g r"
  by (simp add: send_telemetry_def modify_current_def Let_def)

subsection \<open>Gating of the published snapshot\<close>

text \<open>
  C1 (as amended): every call of \<open>send_telemetry\<close> publishes exactly one snapshot, the
  object behind \<open>current_telemetry\<close>. If the state read from the state manager is not
  in \<open>PRINTING_STATES\<close>, the published \<open>printing_time\<close>, \<open>estimated_time\<close> and \<open>progress\<close>
  are unset. If the state is \<open>PRINTING\<close>, the published \<open>axis_x\<close> and \<open>axis_y\<close> are
  unset, and \<open>axis_z\<close> is published as it was gathered.
\<close>

theorem send_telemetry_gating:
  "\<exists>t. published_of (snd (send_telemetry PS st g)) = [(current_telemetry g, t)]
     \<and> (st \<notin> set PS \<longrightarrow> printing_time t = None \<and> estimated_time t = None \<and> progress t = None)
     \<and> (st = PRINTING \<longrightarrow> axis_x t = None \<and> axis_y t = None
           \<and> axis_z t = axis_z (store g (current_telemetry g)))"
  by (simp add: send_telemetry_def modify_current_def Let_def published_of_simps)

text \<open>
  C1 as stated asks for every position field to be unset while printing. The example
  gatherer has gathered \<open>axis_z = 0.2\<close>, and the snapshot published in state
  \<open>PRINTING\<close> still carries it.
\<close>

theorem send_telemetry_position_counterexample:
  "map (axis_z \<circ> snd) (published_of (snd (send_telemetry [PRINTING, PAUSED, FINISHING] PRINTING example_gatherer)))
     = [Some (1/5)]"
  by (simp add: send_telemetry_def modify_current_def Let_def published_of_simps example_gatherer_def
        example_snapshot_def init_snapshots_def Telemetry_new_def)

text \<open>
  The amended statement at the example gatherer: in state \<open>READY\<close>, which is not a
  printing state, the progress is withheld; in state \<open>PRINTING\<close> the X position is
  withheld and the progress is published.
\<close>

theorem send_telemetry_gating_witness:
  "READY \<notin> set [PRINTING, PAUSED, FINISHING]
   \<and> map (progress \<circ> snd) (published_of (snd (send_telemetry [PRINTING, PAUSED, FINISHING] READY example_gatherer))) = [None]
   \<and> map (axis_x \<circ> snd) (published_of (snd (send_telemetry [PRINTING, PAUSED, FINISHING] PRINTING example_gatherer))) = [None]
   \<and> map (progress \<circ> snd) (published_of (snd (send_telemetry [PRINTING, PAUSED, FINISHING] PRINTING example_gatherer))) = [Some 40]"
  using send_telemetry_gating [of "[PRINTING, PAUSED, FINISHING]" READY example_gatherer]
        send_telemetry_gating [of "[PRINTING, PAUSED, FINISHING]" PRINTING example_gatherer]
  by (simp add: send_telemetry_def modify_current_def Let_def published_of_simps example_gatherer_def
        example_snapshot_def init_snapshots_def Telemetry_new_def)

subsection \<open>The query loop\<close>

lemma write_gcodes_all:
  "(\<And>k. bs k \<noteq> BUSY) \<Longrightarrow> (\<And>k. w \<le> k \<Longrightarrow> k < w + length gs \<Longrightarrow> wr k \<noteq> WriteFailed) \<Longrightarrow>
     writes_of (fst (write_gcodes bs wr r w gs :: 'f event list \<times> py_error option)) = gs
     \<and> snd (write_gcodes bs wr r w gs :: 'f event list \<times> py_error option) = None
     \<and> log_levels_of (fst (write_gcodes bs wr r w gs :: 'f event list \<times> py_error option))
         = map (\<lambda>_. DEBUG) (filter (\<lambda>k. wr k = WriteIgnored) [w ..< w + length gs])
     \<and> published_of (fst (write_gcodes bs wr r w gs :: 'f event list \<times> py_error option)) = []"
proof (induction gs arbitrary: r w)
  case Nil
  show ?case by (simp add: writes_of_simps log_levels_of_simps published_of_simps)
next
  case (Cons gcode rest)
  have nf: "wr w \<noteq> WriteFailed" using Cons.prems(2) [of w] by simp
  have ih: "writes_of (fst (write_gcodes bs wr (Suc r) (Suc w) rest :: 'f event list \<times> py_error option)) = rest
     \<and> snd (write_gcodes bs wr (Suc r) (Suc w) rest :: 'f event list \<times> py_error option) = None
     \<and> log_levels_of (fst (write_gcodes bs wr (Suc r) (Suc w) rest :: 'f event list \<times> py_error option))
         = map (\<lambda>_. DEBUG) (filter (\<lambda>k. wr k = WriteIgnored) [Suc w ..< Suc w + length rest])
     \<and> published_of (fst (write_gcodes bs wr (Suc r) (Suc w) rest :: 'f event list \<times> py_error option)) = []"
    using Cons.IH [of "Suc w" "Suc r"] Cons.prems by (simp del: upt_Suc)
  have up: "[w ..< Suc (w + length rest)] = w # [Suc w ..< Suc (w + length rest)]"
    using upt_conv_Cons [of w "Suc (w + length rest)"] by (simp del: upt_Suc)
  show ?case
  proof (cases "wr w")
    case Written
    then show ?thesis using ih Cons.prems(1) [of r]
      by (simp add: writes_of_simps log_levels_of_simps published_of_simps split_beta up
            del: upt_Suc)
  next
    case WriteIgnored
    then show ?thesis using ih Cons.prems(1) [of r]
      by (simp add: writes_of_simps log_levels_of_simps published_of_simps split_beta up
            del: upt_Suc)
  next
    case WriteFailed
    then show ?thesis using nf by simp
  qed
qed

lemma write_gcodes_busy:
  "bs r = BUSY \<Longrightarrow> write_gcodes bs wr r w gs = ([], None)"
  by (cases gs) simp_all

text \<open>
  C2: in a cycle whose reads of \<open>base_state\<close> all give \<open>BUSY\<close> (the cycle makes two:
  the one before the ping and the one at the head of the loop), the only call of
  \<open>serial.write\<close> is the keep-alive ping \<open>PRUSA PING\<close>, none of the status queries is
  written, and the cycle returns normally when the ping was ignored (as it does when
  the ping was written).
\<close>

theorem update_telemetry_busy:
  assumes "bs 0 = BUSY" and "bs 1 = BUSY"
  shows "writes_of (fst (snd (update_telemetry PS st bs wr g))) = [''PRUSA PING'']
       \<and> set (writes_of (fst (snd (update_telemetry PS st bs wr g)))) \<inter> set TELEMETRY_GCODES = {}
       \<and> (wr 0 = WriteIgnored \<longrightarrow> snd (snd (update_telemetry PS st bs wr g)) = None)
       \<and> (wr 0 = Written \<longrightarrow> snd (snd (update_telemetry PS st bs wr g)) = None)"
proof -
  have loop: "write_gcodes bs wr 1 1 TELEMETRY_GCODES = (([] :: 'a event list), None)"
    using assms(2) by (rule write_gcodes_busy)
  have w: "writes_of (fst (snd (update_telemetry PS st bs wr g))) = [''PRUSA PING'']"
    using assms(1) loop
    by (cases "wr 0")
       (simp_all add: update_telemetry_def ping_printer_def alloc_telemetry_def Let_def
          send_telemetry_events writes_of_simps split_beta)
  have r1: "wr 0 = WriteIgnored \<Longrightarrow> snd (snd (update_telemetry PS st bs wr g)) = None"
    using assms(1) loop
    by (simp add: update_telemetry_def ping_printer_def alloc_telemetry_def Let_def split_beta)
  have r2: "wr 0 = Written \<Longrightarrow> snd (snd (update_telemetry PS st bs wr g)) = None"
    using assms(1) loop
    by (simp add: update_telemetry_def ping_printer_def alloc_telemetry_def Let_def split_beta)
  have d: "set [''PRUSA PING''] \<inter> set TELEMETRY_GCODES = {}"
    by (simp add: TELEMETRY_GCODES_def)
  show ?thesis using w r1 r2 d by simp
qed

text \<open>C2 at the example gatherer, with a serial line that ignores every write.\<close>

theorem update_telemetry_busy_witness:
  "writes_of (fst (snd (update_telemetry [PRINTING, PAUSED, FINISHING] BUSY (\<lambda>_. BUSY)
      (\<lambda>_. WriteIgnored) example_gatherer))) = [''PRUSA PING'']
   \<and> snd (snd (update_telemetry [PRINTING, PAUSED, FINISHING] BUSY (\<lambda>_. BUSY)
      (\<lambda>_. WriteIgnored) example_gatherer)) = None"
  using update_telemetry_busy [of "\<lambda>_. BUSY" "[PRINTING, PAUSED, FINISHING]" BUSY "\<lambda>_. WriteIgnored" example_gatherer]
  by simp

text \<open>
  C4: in a cycle whose reads of \<open>base_state\<close> never give \<open>BUSY\<close> and whose writes are
  each either done or rejected with \<open>WriteIgnored\<close>, \<open>serial.write\<close> is called with
  M105, M114, PRUSA FAN, M27, M73 in this order, whichever of them are rejected; the
  cycle returns normally; and the log records of the cycle are one debug record per
  rejected write, none at another level.
\<close>

theorem update_telemetry_queries:
  assumes "\<And>k. bs k \<noteq> BUSY" and "\<And>k. k < 5 \<Longrightarrow> wr k \<noteq> WriteFailed"
  shows "writes_of (fst (snd (update_telemetry PS st bs wr g)))
           = [''M105'', ''M114'', ''PRUSA FAN'', ''M27'', ''M73'']
       \<and> snd (snd (update_telemetry PS st bs wr g)) = None
       \<and> log_levels_of (fst (snd (update_telemetry PS st bs wr g)))
           = map (\<lambda>_. DEBUG) (filter (\<lambda>k. wr k = WriteIgnored) [0 ..< 5])"
proof -
  have len: "length TELEMETRY_GCODES = 5" by (simp add: TELEMETRY_GCODES_def)
  have loop: "writes_of (fst (write_gcodes bs wr 1 0 TELEMETRY_GCODES :: 'a event list \<times> py_error option)) = TELEMETRY_GCODES
     \<and> snd (write_gcodes bs wr 1 0 TELEMETRY_GCODES :: 'a event list \<times> py_error option) = None
     \<and> log_levels_of (fst (write_gcodes bs wr 1 0 TELEMETRY_GCODES :: 'a event list \<times> py_error option))
         = map (\<lambda>_. DEBUG) (filter (\<lambda>k. wr k = WriteIgnored) [0 ..< 0 + length TELEMETRY_GCODES])
     \<and> published_of (fst (write_gcodes bs wr 1 0 TELEMETRY_GCODES :: 'a event list \<times> py_error option)) = []"
    by (rule write_gcodes_all) (use assms len in simp_all)
  have nb: "bs 0 \<noteq> BUSY" by (rule assms(1))
  have gs: "TELEMETRY_GCODES = [''M105'', ''M114'', ''PRUSA FAN'', ''M27'', ''M73'']"
    by (simp add: TELEMETRY_GCODES_def)
  have "writes_of (fst (snd (update_telemetry PS st bs wr g))) = TELEMETRY_GCODES
       \<and> snd (snd (update_telemetry PS st bs wr g)) = None
       \<and> log_levels_of (fst (snd (update_telemetry PS st bs wr g)))
           = map (\<lambda>_. DEBUG) (filter (\<lambda>k. wr k = WriteIgnored) [0 ..< 5])"
    using loop nb len
    by (simp add: update_telemetry_def alloc_telemetry_def Let_def send_telemetry_events
          writes_of_simps log_levels_of_simps split_beta)
  then show ?thesis by (simp only: gs)
qed

text \<open>C4 at the example gatherer, with the third query rejected.\<close>

theorem update_telemetry_queries_witness:
  "writes_of (fst (snd (update_telemetry [PRINTING, PAUSED, FINISHING] READY (\<lambda>_. READY)
      (\<lambda>k. if k = 2 then WriteIgnored else Written) example_gatherer)))
     = [''M105'', ''M114'', ''PRUSA FAN'', ''M27'', ''M73'']
   \<and> snd (snd (update_telemetry [PRINTING, PAUSED, FINISHING] READY (\<lambda>_. READY)
      (\<lambda>k. if k = 2 then WriteIgnored else Written) example_gatherer)) = None"
  using update_telemetry_queries [of "\<lambda>_. READY" "\<lambda>k. if k = 2 then WriteIgnored else Written"
          "[PRINTING, PAUSED, FINISHING]" READY example_gatherer]
  by simp

subsection \<open>Current and last snapshot\<close>

lemma update_telemetry_state:
  "fst (update_telemetry PS st bs wr g) =
     (fst (send_telemetry PS st g))
       \<lparr> last_telemetry := current_telemetry g,
         store := (store (fst (send_telemetry PS st g)))(next_ref g := Telemetry_new),
         next_ref := Suc (next_ref g),
         current_telemetry := next_ref g \<rparr>"
  by (simp add: update_telemetry_def alloc_telemetry_def Let_def split_beta send_telemetry_refs
        split: option.splits)

lemma update_telemetry_published:
  "published_of (fst (snd (update_telemetry PS st bs wr g))) =
     [(current_telemetry g, store (fst (send_telemetry PS st g)) (current_telemetry g))]"
proof -
  have loop: "\<And>r w. published_of (fst (write_gcodes bs wr r w TELEMETRY_GCODES :: 'a event list \<times> py_error option)) = []"
  proof -
    fix r w
    have "\<And>gs r w. published_of (fst (write_gcodes bs wr r w gs :: 'a event list \<times> py_error option)) = []"
    proof -
      fix gs :: "string list" and r w
      show "published_of (fst (write_gcodes bs wr r w gs :: 'a event list \<times> py_error option)) = []"
        by (induction gs arbitrary: r w)
           (simp_all add: published_of_simps split_beta split: write_outcome.splits)
    qed
    then show "published_of (fst (write_gcodes bs wr r w TELEMETRY_GCODES :: 'a event list \<times> py_error option)) = []" .
  qed
  show ?thesis
    by (simp add: update_telemetry_def alloc_telemetry_def ping_printer_def Let_def split_beta
          send_telemetry_events published_of_simps loop split: option.splits write_outcome.splits)
qed

lemma send_telemetry_kept:
  "temp_nozzle (store (fst (send_telemetry PS st g)) (current_telemetry g)) = temp_nozzle (store g (current_telemetry g))"
  "target_nozzle (store (fst (send_telemetry PS st g)) (current_telemetry g)) = target_nozzle (store g (current_telemetry g))"
  "temp_bed (store (fst (send_telemetry PS st g)) (current_telemetry g)) = temp_bed (store g (current_telemetry g))"
  "target_bed (store (fst (send_telemetry PS st g)) (current_telemetry g)) = target_bed (store g (current_telemetry g))"
  "axis_z (store (fst (send_telemetry PS st g)) (current_telemetry g)) = axis_z (store g (current_telemetry g))"
  "e_fan (store (fst (send_telemetry PS st g)) (current_telemetry g)) = e_fan (store g (current_telemetry g))"
  "p_fan (store (fst (send_telemetry PS st g)) (current_telemetry g)) = p_fan (store g (current_telemetry g))"
  "flow (store (fst (send_telemetry PS st g)) (current_telemetry g)) = flow (store g (current_telemetry g))"
  "speed (store (fst (send_telemetry PS st g)) (current_telemetry g)) = speed (store g (current_telemetry g))"
  by (simp_all add: send_telemetry_def modify_current_def Let_def)

lemma init_snapshots_allocated:
  "current_telemetry init_snapshots < next_ref init_snapshots"
  by (simp add: init_snapshots_def)

lemma modify_current_allocated:
  "current_telemetry g < next_ref g \<Longrightarrow>
     current_telemetry (modify_current f g) < next_ref (modify_current f g)"
  by (simp add: modify_current_def)

text \<open>
  C3: let a cycle start with a current snapshot that is an allocated object. After
  the cycle, \<open>last_telemetry\<close> is the very object that was published, with the fields
  it was published with (the ungated fields as the previous cycle gathered them);
  \<open>current_telemetry\<close> is another, fresh object with every field unset, again an
  allocated one; and an assignment of a handler to the current snapshot afterwards
  changes neither which object \<open>last_telemetry\<close> is nor its fields, and works on the
  fresh snapshot.
\<close>

theorem update_telemetry_snapshots:
  assumes inv: "current_telemetry g < next_ref g"
    and run: "update_telemetry PS st bs wr g = (g', evs, res)"
  shows "published_of evs = [(last_telemetry g', store g' (last_telemetry g'))]
       \<and> last_telemetry g' = current_telemetry g
       \<and> store g' (last_telemetry g') = store (fst (send_telemetry PS st g)) (current_telemetry g)
       \<and> temp_nozzle (store g' (last_telemetry g')) = temp_nozzle (store g (current_telemetry g))
       \<and> target_nozzle (store g' (last_telemetry g')) = target_nozzle (store g (current_telemetry g))
       \<and> temp_bed (store g' (last_telemetry g')) = temp_bed (store g (current_telemetry g))
       \<and> target_bed (store g' (last_telemetry g')) = target_bed (store g (current_telemetry g))
       \<and> axis_z (store g' (last_telemetry g')) = axis_z (store g (current_telemetry g))
       \<and> e_fan (store g' (last_telemetry g')) = e_fan (store g (current_telemetry g))
       \<and> p_fan (store g' (last_telemetry g')) = p_fan (store g (current_telemetry g))
       \<and> flow (store g' (last_telemetry g')) = flow (store g (current_telemetry g))
       \<and> speed (store g' (last_telemetry g')) = speed (store g (current_telemetry g))
       \<and> current_telemetry g' \<noteq> last_telemetry g'
       \<and> store g' (current_telemetry g') = Telemetry_new
       \<and> current_telemetry g' < next_ref g'
       \<and> last_telemetry (modify_current f g') = last_telemetry g'
       \<and> store (modify_current f g') (last_telemetry g') = store g' (last_telemetry g')
       \<and> store (modify_current f g') (current_telemetry g') = f Telemetry_new"
proof -
  have g': "g' = fst (update_telemetry PS st bs wr g)" using run by simp
  have evs: "evs = fst (snd (update_telemetry PS st bs wr g))" using run by simp
  have ne: "current_telemetry g \<noteq> next_ref g" using inv by simp
  have last: "last_telemetry g' = current_telemetry g"
    unfolding g' update_telemetry_state by simp
  have cur: "current_telemetry g' = next_ref g"
    unfolding g' update_telemetry_state by simp
  have nxt: "next_ref g' = Suc (next_ref g)"
    unfolding g' update_telemetry_state by simp
  have st_last: "store g' (current_telemetry g) = store (fst (send_telemetry PS st g)) (current_telemetry g)"
    unfolding g' update_telemetry_state using ne by simp
  have st_cur: "store g' (next_ref g) = Telemetry_new"
    unfolding g' update_telemetry_state by simp
  have pub: "published_of evs = [(last_telemetry g', store g' (last_telemetry g'))]"
    unfolding evs update_telemetry_published last st_last ..
  have obj: "store g' (last_telemetry g') = store (fst (send_telemetry PS st g)) (current_telemetry g)"
    unfolding last st_last ..
  have kept:
    "temp_nozzle (store g' (last_telemetry g')) = temp_nozzle (store g (current_telemetry g))"
    "target_nozzle (store g' (last_telemetry g')) = target_nozzle (store g (current_telemetry g))"
    "temp_bed (store g' (last_telemetry g')) = temp_bed (store g (current_telemetry g))"
    "target_bed (store g' (last_telemetry g')) = target_bed (store g (current_telemetry g))"
    "axis_z (store g' (last_telemetry g')) = axis_z (store g (current_telemetry g))"
    "e_fan (store g' (last_telemetry g')) = e_fan (store g (current_telemetry g))"
    "p_fan (store g' (last_telemetry g')) = p_fan (store g (current_telemetry g))"
    "flow (store g' (last_telemetry g')) = flow (store g (current_telemetry g))"
    "speed (store g' (last_telemetry g')) = speed (store g (current_telemetry g))"
    unfolding obj by (rule send_telemetry_kept)+
  have h1: "last_telemetry (modify_current f g') = last_telemetry g'"
    by (simp add: modify_current_def)
  have h2: "store (modify_current f g') (last_telemetry g') = store g' (last_telemetry g')"
    using ne by (simp add: modify_current_def last cur)
  have h3: "store (modify_current f g') (current_telemetry g') = f Telemetry_new"
    by (simp add: modify_current_def cur st_cur)
  have fresh: "current_telemetry g' \<noteq> last_telemetry g'"
    unfolding cur last using ne by simp
  have empty: "store g' (current_telemetry g') = Telemetry_new"
    unfolding cur by (rule st_cur)
  have alloc: "current_telemetry g' < next_ref g'"
    unfolding cur nxt by simp
  show ?thesis
    by (intro conjI pub last obj kept fresh empty alloc h1 h2 h3)
qed

text \<open>
  C3 at the example gatherer: after a cycle the last snapshot has the nozzle
  temperature gathered before, and the current snapshot is empty.
\<close>

theorem update_telemetry_snapshots_witness:
  "current_telemetry example_gatherer < next_ref example_gatherer
   \<and> temp_nozzle (store (fst (update_telemetry [PRINTING, PAUSED, FINISHING] READY (\<lambda>_. READY)
         (\<lambda>_. Written) example_gatherer))
       (last_telemetry (fst (update_telemetry [PRINTING, PAUSED, FINISHING] READY (\<lambda>_. READY)
         (\<lambda>_. Written) example_gatherer)))) = Some 215
   \<and> store (fst (update_telemetry [PRINTING, PAUSED, FINISHING] READY (\<lambda>_. READY)
         (\<lambda>_. Written) example_gatherer))
       (current_telemetry (fst (update_telemetry [PRINTING, PAUSED, FINISHING] READY (\<lambda>_. READY)
         (\<lambda>_. Written) example_gatherer))) = (Telemetry_new :: real Telemetry)"
proof -
  have inv: "current_telemetry example_gatherer < next_ref example_gatherer"
    by (simp add: example_gatherer_def modify_current_def init_snapshots_def)
  have tn: "temp_nozzle (store example_gatherer (current_telemetry example_gatherer)) = Some 215"
    by (simp add: example_gatherer_def modify_current_def init_snapshots_def example_snapshot_def)
  obtain g' evs res where run:
    "update_telemetry [PRINTING, PAUSED, FINISHING] READY (\<lambda>_. READY) (\<lambda>_. Written) example_gatherer
       = (g', evs, res)"
    by (cases "update_telemetry [PRINTING, PAUSED, FINISHING] READY (\<lambda>_. READY) (\<lambda>_. Written) example_gatherer")
  have g': "fst (update_telemetry [PRINTING, PAUSED, FINISHING] READY (\<lambda>_. READY) (\<lambda>_. Written) example_gatherer) = g'"
    using run by simp
  note r = update_telemetry_snapshots [OF inv run, of id]
  have a: "temp_nozzle (store g' (last_telemetry g')) = Some 215"
    using r tn by (elim conjE) (simp only:)
  have b: "store g' (current_telemetry g') = Telemetry_new"
    using r by (elim conjE)
  show ?thesis unfolding g' using inv a b by simp
qed

subsection \<open>The progress handler\<close>

text \<open>
  C9: when the captured percentage parses to an integer below 0 or above 100,
  \<open>progress_handler\<close> returns the gatherer as it was; and whenever the handler
  returns, the progress of the current snapshot is either what it was or the parsed
  percentage, which then lies between 0 and 100.
\<close>

theorem progress_handler_range:
  "(py_int s = Some p \<and> (p < 0 \<or> 100 < p) \<longrightarrow> progress_handler (s # gs) g = Inr g)
   \<and> (progress_handler (s # gs) g = Inr g' \<longrightarrow>
        progress (store g' (current_telemetry g')) = progress (store g (current_telemetry g))
        \<or> (\<exists>p. py_int s = Some p \<and> progress (store g' (current_telemetry g')) = Some p \<and> 0 \<le> p \<and> p \<le> 100))"
  by (auto simp: progress_handler_def modify_current_def split: option.splits if_splits)

text \<open>
  C9 at the example gatherer: the percentage 255 leaves the gatherer as it is, the
  percentage 55 is stored.
\<close>

theorem progress_handler_range_witness:
  "py_int ''255'' = Some 255 \<and> progress_handler [''255''] example_gatherer = Inr example_gatherer
   \<and> progress (store example_gatherer (current_telemetry example_gatherer)) = Some 40
   \<and> map_sum id (\<lambda>g. progress (store g (current_telemetry g))) (progress_handler [''55''] example_gatherer)
       = Inr (Some 55)"
proof -
  have p: "py_int ''255'' = Some 255" by code_simp
  have p2: "py_int ''55'' = Some 55" by code_simp
  have q: "progress (store example_gatherer (current_telemetry example_gatherer)) = Some 40"
    by (simp add: example_gatherer_def modify_current_def init_snapshots_def example_snapshot_def)
  have r: "map_sum id (\<lambda>g. progress (store g (current_telemetry g))) (progress_handler [''55''] example_gatherer)
       = Inr (Some 55)"
    by (simp add: progress_handler_def p2 modify_current_def)
  show ?thesis
    using p q r progress_handler_range [of "''255''" 255 "[]" example_gatherer]
      progress_handler_range [of "''55''" 55 "[]" example_gatherer]
    by simp
qed

section \<open>Properties of the startup probes\<close>

subsection \<open>Firmware version\<close>

lemma not_digit_dot: "\<not> is_digit CHR ''.''"
  by (simp add: is_digit_def)

lemma takeWhile_digits_dot:
  "(\<And>c. c \<in> set a \<Longrightarrow> is_digit c) \<Longrightarrow> takeWhile is_digit (a @ CHR ''.'' # b) = a"
  by (simp add: takeWhile_append2 not_digit_dot)

lemma dropWhile_digits_dot:
  "(\<And>c. c \<in> set a \<Longrightarrow> is_digit c) \<Longrightarrow> dropWhile is_digit (a @ CHR ''.'' # b) = CHR ''.'' # b"
  by (simp add: dropWhile_append2 not_digit_dot)

lemma FW_REGEX_group:
  assumes "FW_REGEX line = Some groups"
  shows "\<exists>a b. groups = [a @ CHR ''.'' # b] \<and> a \<noteq> [] \<and> b \<noteq> []
           \<and> (\<forall>c \<in> set a. is_digit c) \<and> (\<forall>c \<in> set b. is_digit c)"
proof -
  let ?r = "drop 3 line"
  obtain c r2 where r1: "dropWhile is_digit ?r = c # r2"
    using assms
    by (cases "dropWhile is_digit ?r")
       (simp_all add: FW_REGEX_def Let_def del: dropWhile_eq_Nil_conv split: if_splits)
  have ok: "takeWhile is_digit ?r \<noteq> [] \<and> c = CHR ''.'' \<and> takeWhile is_digit r2 \<noteq> []"
    using assms r1 by (simp add: FW_REGEX_def Let_def split: if_splits)
  have g: "groups = [takeWhile is_digit ?r @ CHR ''.'' # takeWhile is_digit r2]"
    using assms r1 ok by (simp add: FW_REGEX_def Let_def split: if_splits)
  have da: "\<forall>c \<in> set (takeWhile is_digit ?r). is_digit c"
    by (auto dest: set_takeWhileD)
  have db: "\<forall>c \<in> set (takeWhile is_digit r2). is_digit c"
    by (auto dest: set_takeWhileD)
  show ?thesis using g ok da db by blast
qed

lemma StrictVersion_two_numbers:
  assumes "a \<noteq> []" and "b \<noteq> []"
    and da: "\<forall>c \<in> set a. is_digit c" and db: "\<forall>c \<in> set b. is_digit c"
  shows "StrictVersion (a @ CHR ''.'' # b)
           = Some \<lparr> major = digits_value 0 a, minor = digits_value 0 b, patch = 0, prerelease = None \<rparr>"
proof -
  have t1: "takeWhile is_digit (a @ CHR ''.'' # b) = a"
    using da by (intro takeWhile_digits_dot) simp
  have d1: "dropWhile is_digit (a @ CHR ''.'' # b) = CHR ''.'' # b"
    using da by (intro dropWhile_digits_dot) simp
  have t2: "takeWhile is_digit b = b" using db by (simp add: takeWhile_eq_all_conv)
  have d2: "dropWhile is_digit b = []" using db by simp
  show ?thesis
    unfolding StrictVersion_def t1 d1 using assms(1,2) by (simp add: t2 d2 Let_def)
qed

lemma first_match_Some:
  "first_match rx lines = Some groups \<Longrightarrow> \<exists>line \<in> set lines. rx line = Some groups"
  by (induction lines) (auto split: option.splits)

text \<open>
  C6: \<open>get_firmware_version\<close> submits exactly one Instruction, \<open>M115\<close> with the
  firmware-version matcher. If a line read while it waited matched, the result is the
  first (and only) captured group of the first such line; if no line matched, it
  raises \<open>RuntimeError\<close>.
\<close>

theorem get_firmware_version_result:
  "fst (snd (get_firmware_version MINIMAL_FIRMWARE lines errs))
     = [\<lparr> message = ''M115'', regexp = Some FW_REGEX, to_front = True \<rparr>]
   \<and> (\<forall>groups. first_match FW_REGEX lines = Some groups \<longrightarrow>
        (\<exists>v. groups = [v] \<and> fst (get_firmware_version MINIMAL_FIRMWARE lines errs) = Inr v))
   \<and> (first_match FW_REGEX lines = None \<longrightarrow>
        fst (get_firmware_version MINIMAL_FIRMWARE lines errs)
          = Inl (RuntimeError ''Printer responded with something unexpected''))"
proof -
  have sub: "fst (snd (get_firmware_version MINIMAL_FIRMWARE lines errs))
     = [\<lparr> message = ''M115'', regexp = Some FW_REGEX, to_front = True \<rparr>]"
    by (simp add: get_firmware_version_def enqueue_matchable_def wait_for_instruction_def Let_def
          split: option.splits list.splits)
  have none: "first_match FW_REGEX lines = None \<Longrightarrow>
        fst (get_firmware_version MINIMAL_FIRMWARE lines errs)
          = Inl (RuntimeError ''Printer responded with something unexpected'')"
    by (simp add: get_firmware_version_def enqueue_matchable_def wait_for_instruction_def Let_def)
  have some: "\<exists>v. groups = [v] \<and> fst (get_firmware_version MINIMAL_FIRMWARE lines errs) = Inr v"
    if m: "first_match FW_REGEX lines = Some groups" for groups
  proof -
    obtain line where "FW_REGEX line = Some groups"
      using first_match_Some [OF m] by blast
    then obtain a b where g: "groups = [a @ CHR ''.'' # b]" and ne: "a \<noteq> []" "b \<noteq> []"
      and d: "\<forall>c \<in> set a. is_digit c" "\<forall>c \<in> set b. is_digit c"
      using FW_REGEX_group by blast
    have sv: "StrictVersion (a @ CHR ''.'' # b)
           = Some \<lparr> major = digits_value 0 a, minor = digits_value 0 b, patch = 0, prerelease = None \<rparr>"
      using ne d by (rule StrictVersion_two_numbers)
    have "fst (get_firmware_version MINIMAL_FIRMWARE lines errs) = Inr (a @ CHR ''.'' # b)"
      using m g sv
      by (simp add: get_firmware_version_def enqueue_matchable_def wait_for_instruction_def Let_def)
    then show ?thesis using g by simp
  qed
  show ?thesis using sub none some by blast
qed

text \<open>
  C6 on the spec's scenario: the line \<open>FW:3.10\<close> gives the version \<open>3.10\<close>; without a
  matching line the getter raises.
\<close>

theorem get_firmware_version_result_witness:
  "first_match FW_REGEX [''ok'', ''FW:3.10''] = Some [''3.10'']
   \<and> fst (get_firmware_version \<lparr> major = 3, minor = 9, patch = 0, prerelease = None \<rparr>
            [''ok'', ''FW:3.10''] \<lparr> ID_ok = None, FW_ok = None \<rparr>) = Inr ''3.10''
   \<and> first_match FW_REGEX [''ok''] = None
   \<and> fst (get_firmware_version \<lparr> major = 3, minor = 9, patch = 0, prerelease = None \<rparr>
            [''ok''] \<lparr> ID_ok = None, FW_ok = None \<rparr>)
       = Inl (RuntimeError ''Printer responded with something unexpected'')"
proof -
  have m: "first_match FW_REGEX [''ok'', ''FW:3.10''] = Some [''3.10'']"
    by (simp add: FW_REGEX_def is_digit_def Let_def)
  have n: "first_match FW_REGEX [''ok''] = None"
    by (simp add: FW_REGEX_def)
  show ?thesis
    using m n
      get_firmware_version_result [of "\<lparr> major = 3, minor = 9, patch = 0, prerelease = None \<rparr>"
        "[''ok'', ''FW:3.10'']" "\<lparr> ID_ok = None, FW_ok = None \<rparr>"]
      get_firmware_version_result [of "\<lparr> major = 3, minor = 9, patch = 0, prerelease = None \<rparr>"
        "[''ok'']" "\<lparr> ID_ok = None, FW_ok = None \<rparr>"]
    by auto
qed

subsection \<open>Priority of the probes\<close>

lemma enqueue_front:
  "\<not> write_exclusive q \<Longrightarrow> to_front i \<Longrightarrow>
     enqueue i q = Inr (q\<lparr> front_queue := front_queue q @ [i] \<rparr>)
     \<and> send_order (q\<lparr> front_queue := front_queue q @ [i] \<rparr>) = front_queue q @ i # normal_queue q"
  by (simp add: enqueue_def send_order_def)

lemma get_printer_type_submitted:
  "\<exists>rest. fst (snd (get_printer_type RX lines errs))
            = \<lparr> message = ''M862.2 Q'', regexp = Some RX, to_front = True \<rparr> # rest
          \<and> list_all to_front rest"
  by (simp add: get_printer_type_def enqueue_matchable_def enqueue_instruction_def Let_def
        split: option.splits list.splits)

lemma get_firmware_version_submitted:
  "fst (snd (get_firmware_version MINIMAL_FIRMWARE lines errs))
     = [\<lparr> message = ''M115'', regexp = Some FW_REGEX, to_front = True \<rparr>]"
  by (simp add: get_firmware_version_def enqueue_matchable_def Let_def
        split: option.splits list.splits)

lemma get_nozzle_diameter_submitted:
  "fst (snd (get_nozzle_diameter RX to_float lines errs))
     = [\<lparr> message = ''M862.1 Q'', regexp = Some RX, to_front = True \<rparr>]"
  by (simp add: get_nozzle_diameter_def enqueue_matchable_def Let_def
        split: option.splits list.splits)

text \<open>
  C5: each startup probe submits its query with front priority: \<open>get_printer_type\<close>
  submits \<open>M862.2 Q\<close> first, \<open>get_firmware_version\<close> submits \<open>M115\<close> and
  \<open>get_nozzle_diameter\<close> submits \<open>M862.1 Q\<close>, each with \<open>to_front=True\<close>, and so does
  everything else the probes submit. Enqueued in a serial queue whose write
  exclusivity is not held, such an Instruction is sent after the pending front
  Instructions and before every pending normal one.
\<close>

theorem startup_probes_to_front:
  "(\<exists>rest. fst (snd (get_printer_type RX1 lines1 errs1))
            = \<lparr> message = ''M862.2 Q'', regexp = Some RX1, to_front = True \<rparr> # rest)
   \<and> fst (snd (get_firmware_version MINIMAL_FIRMWARE lines2 errs2))
       = [\<lparr> message = ''M115'', regexp = Some FW_REGEX, to_front = True \<rparr>]
   \<and> fst (snd (get_nozzle_diameter RX3 to_float lines3 errs3))
       = [\<lparr> message = ''M862.1 Q'', regexp = Some RX3, to_front = True \<rparr>]
   \<and> (\<forall>i q. i \<in> set (fst (snd (get_printer_type RX1 lines1 errs1)))
               \<union> set (fst (snd (get_firmware_version MINIMAL_FIRMWARE lines2 errs2)))
               \<union> set (fst (snd (get_nozzle_diameter RX3 to_float lines3 errs3)))
          \<longrightarrow> to_front i
              \<and> (\<not> write_exclusive q \<longrightarrow>
                   (\<exists>q'. enqueue i q = Inr q'
                      \<and> send_order q' = front_queue q @ i # normal_queue q)))"
proof -
  obtain rest where p: "fst (snd (get_printer_type RX1 lines1 errs1))
            = \<lparr> message = ''M862.2 Q'', regexp = Some RX1, to_front = True \<rparr> # rest"
    and r: "list_all to_front rest"
    using get_printer_type_submitted by blast
  note f = get_firmware_version_submitted [of MINIMAL_FIRMWARE lines2 errs2]
  note n = get_nozzle_diameter_submitted [of RX3 to_float lines3 errs3]
  have front: "to_front i"
    if "i \<in> set (fst (snd (get_printer_type RX1 lines1 errs1)))
               \<union> set (fst (snd (get_firmware_version MINIMAL_FIRMWARE lines2 errs2)))
               \<union> set (fst (snd (get_nozzle_diameter RX3 to_float lines3 errs3)))" for i
    using that r unfolding p f n by (auto simp: list_all_iff)
  have q: "\<exists>q'. enqueue i q = Inr q' \<and> send_order q' = front_queue q @ i # normal_queue q"
    if "to_front i" "\<not> write_exclusive q" for i q
    using enqueue_front [OF that(2) that(1)] by blast
  show ?thesis using p f n front q by blast
qed

text \<open>
  C5 on the example queue: the firmware probe goes behind the pending urgent
  Instruction and ahead of the two normal ones.
\<close>

theorem startup_probes_to_front_witness:
  "enqueue_matchable ''M115'' FW_REGEX True
     \<in> set (fst (snd (get_firmware_version \<lparr> major = 3, minor = 9, patch = 0, prerelease = None \<rparr>
                         [''FW:3.10''] \<lparr> ID_ok = None, FW_ok = None \<rparr>)))
   \<and> \<not> write_exclusive example_queue
   \<and> map message (send_order (projr (enqueue (enqueue_matchable ''M115'' FW_REGEX True) example_queue)))
       = [''M117 hello'', ''M115'', ''M105'', ''M114'']"
proof -
  have a: "enqueue_matchable ''M115'' FW_REGEX True
     \<in> set (fst (snd (get_firmware_version \<lparr> major = 3, minor = 9, patch = 0, prerelease = None \<rparr>
                         [''FW:3.10''] \<lparr> ID_ok = None, FW_ok = None \<rparr>)))"
    by (simp add: get_firmware_version_submitted enqueue_matchable_def)
  have b: "\<not> write_exclusive example_queue" by (simp add: example_queue_def)
  have "\<exists>q'. enqueue (enqueue_matchable ''M115'' FW_REGEX True) example_queue = Inr q'
          \<and> send_order q' = front_queue example_queue
               @ enqueue_matchable ''M115'' FW_REGEX True # normal_queue example_queue"
    using a b startup_probes_to_front [of "\<lambda>_. None" "[]" "\<lparr> ID_ok = None, FW_ok = None \<rparr>"
        "\<lparr> major = 3, minor = 9, patch = 0, prerelease = None \<rparr>" "[''FW:3.10'']"
        "\<lparr> ID_ok = None, FW_ok = None \<rparr>" "\<lambda>_. None" "\<lambda>_. (None :: real option)" "[]"
        "\<lparr> ID_ok = None, FW_ok = None \<rparr>"]
    by blast
  then have "map message (send_order (projr (enqueue (enqueue_matchable ''M115'' FW_REGEX True) example_queue)))
       = map message (front_queue example_queue
               @ enqueue_matchable ''M115'' FW_REGEX True # normal_queue example_queue)"
    by auto
  then show ?thesis using a b
    by (simp add: example_queue_def enqueue_matchable_def enqueue_instruction_def)
qed

section \<open>Properties of the module data\<close>

text \<open>
  C7: a \<open>StateManagerData\<close> constructed without keywords for \<open>base_state\<close>,
  \<open>printing_state\<close> and \<open>override_state\<close> has \<open>base_state = READY\<close> and the other two
  unset.
\<close>

theorem StateManagerData_defaults:
  "kw_base_state kw = None \<and> kw_printing_state kw = None \<and> kw_override_state kw = None \<longrightarrow>
     base_state (StateManagerData_init kw) = Some READY
     \<and> printing_state (StateManagerData_init kw) = None
     \<and> override_state (StateManagerData_init kw) = None"
  by (simp add: StateManagerData_init_def field_value_def)

text \<open>C7 for the construction without any keyword.\<close>

theorem StateManagerData_defaults_witness:
  "kw_base_state no_kwargs = None \<and> kw_printing_state no_kwargs = None
   \<and> kw_override_state no_kwargs = None
   \<and> base_state (StateManagerData_init no_kwargs) = Some READY
   \<and> printing_state (StateManagerData_init no_kwargs) = None
   \<and> override_state (StateManagerData_init no_kwargs) = None"
  using StateManagerData_defaults [of no_kwargs] by (simp add: no_kwargs_def)

section \<open>Properties of the instance guards\<close>

text \<open>
  \<open>Config\<close> and \<open>Settings\<close> refuse a second instance: once a construction has
  completed, the class attribute is set, the other constructors leave it alone, and
  the guard of the next construction raises.
\<close>

lemma Config_guard:
  "Config_instance w \<noteq> None \<Longrightarrow>
     fst (Config_init body w) = Inl (RuntimeError ''Config is singleton'')"
  by (simp add: Config_init_def new_object_def)

lemma Config_constructed:
  "Config_init body w = (Inr r, w') \<Longrightarrow> Config_instance w' = Some r"
  by (auto simp: Config_init_def new_object_def split: if_splits option.splits)

lemma Config_second_instance:
  "Config_init body w = (Inr r, w') \<Longrightarrow>
     fst (Config_init body' w') = Inl (RuntimeError ''Config is singleton'')"
  using Config_constructed [of body w r w'] Config_guard [of w' body'] by simp

lemma Settings_guard:
  "Settings_instance w \<noteq> None \<Longrightarrow>
     fst (Settings_init body w) = Inl (RuntimeError ''Config is singleton'')"
  by (simp add: Settings_init_def new_object_def)

lemma Settings_constructed:
  "Settings_init body w = (Inr r, w') \<Longrightarrow> Settings_instance w' = Some r"
  by (auto simp: Settings_init_def new_object_def split: if_splits option.splits)

lemma Settings_second_instance:
  "Settings_init body w = (Inr r, w') \<Longrightarrow>
     fst (Settings_init body' w') = Inl (RuntimeError ''Config is singleton'')"
  using Settings_constructed [of body w r w'] Settings_guard [of w' body'] by simp

lemma Config_instance_kept:
  "Config_instance (snd (Settings_init body w)) = Config_instance w"
  "Config_instance (snd (TelemetryGatherer_init w)) = Config_instance w"
  by (simp_all add: Settings_init_def TelemetryGatherer_init_def new_object_def
        split: option.splits)

lemma Settings_instance_kept:
  "Settings_instance (snd (Config_init body w)) = Settings_instance w"
  "Settings_instance (snd (TelemetryGatherer_init w)) = Settings_instance w"
  by (simp_all add: Config_init_def TelemetryGatherer_init_def new_object_def
        split: option.splits)

text \<open>
  The guard of \<open>TelemetryGatherer\<close> reads the attribute through the new object and the
  constructor writes it to the object, so the class attribute is never set and the
  guard never raises.
\<close>

lemma fresh_objects_loaded: "fresh_objects classes_loaded"
  by (simp add: fresh_objects_def classes_loaded_def)

lemma TelemetryGatherer_init_never_raises:
  "fresh_objects w \<Longrightarrow>
     fst (TelemetryGatherer_init w) = Inr (next_object w)
     \<and> fresh_objects (snd (TelemetryGatherer_init w))"
  by (simp add: fresh_objects_def TelemetryGatherer_init_def new_object_def self_instance_def)

lemma fresh_objects_kept:
  "fresh_objects w \<Longrightarrow> fresh_objects (snd (Config_init body w))"
  "fresh_objects w \<Longrightarrow> fresh_objects (snd (Settings_init body w))"
  by (simp_all add: fresh_objects_def Config_init_def Settings_init_def new_object_def
        split: option.splits)

text \<open>
  C8 asks that constructing a second instance of each guarded class raises. For
  \<open>TelemetryGatherer\<close> the code does not: starting from the loaded classes, the first
  construction returns object 0 and the second returns object 1.
\<close>

theorem TelemetryGatherer_second_instance:
  "fst (TelemetryGatherer_init classes_loaded) = Inr 0
   \<and> fst (TelemetryGatherer_init (snd (TelemetryGatherer_init classes_loaded))) = Inr 1"
  by (simp add: TelemetryGatherer_init_def new_object_def self_instance_def classes_loaded_def)

section \<open>Properties of the file move handler\<close>

text \<open>
  C10: for a request whose source exists, whose destination differs from the source,
  which does not conflict with a job in progress and whose destination's parent
  directory exists, \<open>api_modify\<close> makes no file system call, leaves the file system as
  it is and responds with 201 Created. Whenever the handler calls \<open>move\<close>, the
  destination's parent directory did not exist when the handler started.
\<close>

theorem api_modify_parent_exists:
  "(json_source req = Some src \<and> json_destination req = Some dst
      \<and> exists fs (join os_path src)
      \<and> join os_path src \<noteq> join os_path dst
      \<and> \<not> (job_state job = IN_PROGRESS
            \<and> Some (join os_path src) = get_os_path (selected_file_path job))
      \<and> exists fs (dirname (join os_path dst))
    \<longrightarrow> api_modify exists makedirs move os_path get_os_path job req fs
          = (Inr (Response 201), fs, []))
   \<and> (\<forall>s d. Move s d \<in> set (snd (snd (api_modify exists makedirs move os_path get_os_path job req fs)))
        \<longrightarrow> (\<exists>dst. json_destination req = Some dst
               \<and> \<not> exists fs (dirname (join os_path dst))))"
  by (auto simp: api_modify_def Let_def HTTP_CREATED_def split: option.splits sum.splits if_splits)

text \<open>
  C10 on the example file system: moving \<open>a.gcode\<close> into the existing directory
  \<open>sub\<close> does nothing and answers 201; moving it into the missing directory \<open>new\<close>
  calls \<open>move\<close>.
\<close>

theorem api_modify_parent_exists_witness:
  "example_exists example_fs (join ''/home/pi/gcodes'' ''a.gcode'')
   \<and> join ''/home/pi/gcodes'' ''a.gcode'' \<noteq> join ''/home/pi/gcodes'' ''sub/a.gcode''
   \<and> example_exists example_fs (dirname (join ''/home/pi/gcodes'' ''sub/a.gcode''))
   \<and> api_modify example_exists example_makedirs example_move ''/home/pi/gcodes'' (\<lambda>p. p) idle_job
        \<lparr> json_source = Some ''a.gcode'', json_destination = Some ''sub/a.gcode'' \<rparr> example_fs
       = (Inr (Response 201), example_fs, [])
   \<and> Move ''/home/pi/gcodes/a.gcode'' ''/home/pi/gcodes/new/a.gcode''
       \<in> set (snd (snd (api_modify example_exists example_makedirs example_move ''/home/pi/gcodes''
                 (\<lambda>p. p) idle_job
                 \<lparr> json_source = Some ''a.gcode'', json_destination = Some ''new/a.gcode'' \<rparr>
                 example_fs)))
   \<and> \<not> example_exists example_fs (dirname (join ''/home/pi/gcodes'' ''new/a.gcode''))"
proof -
  have j1: "join ''/home/pi/gcodes'' ''a.gcode'' = ''/home/pi/gcodes/a.gcode''"
    by (simp add: join_def startswith_sep_def endswith_sep_def)
  have j2: "join ''/home/pi/gcodes'' ''sub/a.gcode'' = ''/home/pi/gcodes/sub/a.gcode''"
    by (simp add: join_def startswith_sep_def endswith_sep_def)
  have j3: "join ''/home/pi/gcodes'' ''new/a.gcode'' = ''/home/pi/gcodes/new/a.gcode''"
    by (simp add: join_def startswith_sep_def endswith_sep_def)
  have d: "dirname ''/home/pi/gcodes/sub/a.gcode'' = ''/home/pi/gcodes/sub''"
    by (simp add: dirname_def)
  have d3: "dirname ''/home/pi/gcodes/new/a.gcode'' = ''/home/pi/gcodes/new''"
    by (simp add: dirname_def)
  have e1: "example_exists example_fs (join ''/home/pi/gcodes'' ''a.gcode'')"
    unfolding j1 by (simp add: example_exists_def example_fs_def)
  have ne: "join ''/home/pi/gcodes'' ''a.gcode'' \<noteq> join ''/home/pi/gcodes'' ''sub/a.gcode''"
    unfolding j1 j2 by simp
  have e2: "example_exists example_fs (dirname (join ''/home/pi/gcodes'' ''sub/a.gcode''))"
    unfolding j2 d by (simp add: example_exists_def example_fs_def)
  have e3: "\<not> example_exists example_fs (dirname (join ''/home/pi/gcodes'' ''new/a.gcode''))"
    unfolding j3 d3 by (simp add: example_exists_def example_fs_def)
  have job: "\<not> (job_state idle_job = IN_PROGRESS
            \<and> Some (join ''/home/pi/gcodes'' ''a.gcode'') = (\<lambda>p. p) (selected_file_path idle_job))"
    by (simp add: idle_job_def)
  have mv: "Move ''/home/pi/gcodes/a.gcode'' ''/home/pi/gcodes/new/a.gcode''
       \<in> set (snd (snd (api_modify example_exists example_makedirs example_move ''/home/pi/gcodes''
                 (\<lambda>p. p) idle_job
                 \<lparr> json_source = Some ''a.gcode'', json_destination = Some ''new/a.gcode'' \<rparr>
                 example_fs)))"
    using e1 e3 unfolding j1 j3 d3
    by (simp add: api_modify_def Let_def j1 j3 d3 idle_job_def example_makedirs_def example_move_def)
  have a: "api_modify example_exists example_makedirs example_move ''/home/pi/gcodes'' (\<lambda>p. p) idle_job
        \<lparr> json_source = Some ''a.gcode'', json_destination = Some ''sub/a.gcode'' \<rparr> example_fs
       = (Inr (Response 201), example_fs, [])"
    using e1 ne e2 job
      api_modify_parent_exists [of "\<lparr> json_source = Some ''a.gcode'', json_destination = Some ''sub/a.gcode'' \<rparr>"
        "''a.gcode''" "''sub/a.gcode''" example_exists example_fs "''/home/pi/gcodes''" idle_job
        "\<lambda>p. p" example_makedirs example_move]
    by simp
  have b: "\<exists>dst. json_destination \<lparr> json_source = Some ''a.gcode'', json_destination = Some ''new/a.gcode'' \<rparr> = Some dst
               \<and> \<not> example_exists example_fs (dirname (join ''/home/pi/gcodes'' dst))"
    using mv
      api_modify_parent_exists [of "\<lparr> json_source = Some ''a.gcode'', json_destination = Some ''new/a.gcode'' \<rparr>"
        "''a.gcode''" "''new/a.gcode''" example_exists example_fs "''/home/pi/gcodes''" idle_job
        "\<lambda>p. p" example_makedirs example_move]
    by blast
  show ?thesis using e1 ne e2 a mv b by simp
qed

end
